theory Spec2Isabelle
  imports Main "HOL-Library.Log_Nat" "HOL-Library.Sublist"
begin

text \<open>
  The market-data refresh job of the portfolio tracker, the edge function
  \<open>supabase/functions/refresh-market-data/index.ts\<close>: the rate-limited quote fetcher
  \<open>fetchMarketData\<close>, the threshold alert evaluator \<open>checkPriceAlerts\<close> and the
  request handler that resolves the caller's symbols, fetches their quotes, upserts them,
  appends the price history, evaluates the alerts and writes the audit entry. The
  functions are modelled as they are written, over an explicit store, an explicit trace
  of requests and delays, and JavaScript numbers with their rounding, infinities and NaN.
\<close>

section \<open>JavaScript numbers\<close>

text \<open>
  Prices, percentages and thresholds are JavaScript numbers: IEEE 754 binary64 values.
  A number is modelled as a finite rational, one of the two infinities, or NaN.
  Every arithmetic operation computes the exact rational result and rounds it to the
  nearest binary64 value, ties to even (\<open>round_double\<close>), overflowing to an infinity.
  The two zeros \<open>+0\<close> and \<open>-0\<close> are one value \<open>Fin 0\<close>, which divides like \<open>+0\<close>.
  Whether a notification is created does not depend on the sign of a zero: the
  quotient is looked at through \<open>Math.abs\<close>, and truthiness and \<open>>=\<close> do not tell the
  two zeros apart. The sign does show in the change that the message prints: for the
  old price \<open>-0\<close> the code has the infinity of the opposite sign to the model's.
\<close>

datatype jsnum = Fin rat | PInf | NInf | NaN

definition pow2 :: "int \<Rightarrow> rat" where
  "pow2 k = (if 0 \<le> k then 2 ^ nat k else 1 / 2 ^ nat (- k))"

definition ilog2 :: "rat \<Rightarrow> int" where
  \<comment> \<open>\<open>\<lfloor>log\<^sub>2 a\<rfloor>\<close> for \<open>a > 0\<close>, from the bit lengths of numerator and denominator\<close>
  "ilog2 a =
     (let e = bitlen (fst (quotient_of a)) - bitlen (snd (quotient_of a))
      in if pow2 e \<le> a then e else e - 1)"

definition round_half_even :: "rat \<Rightarrow> int" where
  "round_half_even q =
     (let f = \<lfloor>q\<rfloor>; r = q - of_int f
      in if r < 1 / 2 then f
         else if 1 / 2 < r then f + 1
         else if even f then f else f + 1)"

definition round_double :: "rat \<Rightarrow> jsnum" where
  \<comment> \<open>53-bit significand \<open>m\<close>, least exponent \<open>-1074\<close> (subnormals); the rounded
      value \<open>m * 2 ^ p\<close> overflows when it reaches \<open>2 ^ 1024\<close>, that is when \<open>m\<close> has
      more than \<open>1024 - p\<close> bits\<close>
  "round_double q =
     (if q = 0 then Fin 0
      else
        let a = \<bar>q\<bar>;
            p = max (ilog2 a - 52) (- 1074);
            m = round_half_even (a / pow2 p)
        in if 1024 < bitlen m + p then (if 0 < q then PInf else NInf)
           else Fin (if 0 < q then of_int m * pow2 p else - (of_int m * pow2 p)))"

definition representable :: "jsnum \<Rightarrow> bool" where
  \<comment> \<open>the value is a binary64 number: rounding leaves it as it is\<close>
  "representable a = (case a of Fin q \<Rightarrow> round_double q = Fin q | _ \<Rightarrow> True)"

definition is_neg :: "jsnum \<Rightarrow> bool" where
  "is_neg a = (case a of Fin x \<Rightarrow> x < 0 | NInf \<Rightarrow> True | _ \<Rightarrow> False)"

fun js_sub :: "jsnum \<Rightarrow> jsnum \<Rightarrow> jsnum" where
  "js_sub NaN b = NaN"
| "js_sub a NaN = NaN"
| "js_sub (Fin x) (Fin y) = round_double (x - y)"
| "js_sub PInf PInf = NaN"
| "js_sub NInf NInf = NaN"
| "js_sub PInf b = PInf"
| "js_sub NInf b = NInf"
| "js_sub (Fin x) PInf = NInf"
| "js_sub (Fin x) NInf = PInf"

fun js_mul :: "jsnum \<Rightarrow> jsnum \<Rightarrow> jsnum" where
  "js_mul NaN b = NaN"
| "js_mul a NaN = NaN"
| "js_mul (Fin x) (Fin y) = round_double (x * y)"
| "js_mul a b =
     (if a = Fin 0 \<or> b = Fin 0 then NaN
      else if is_neg a = is_neg b then PInf else NInf)"

fun js_div :: "jsnum \<Rightarrow> jsnum \<Rightarrow> jsnum" where
  "js_div NaN b = NaN"
| "js_div a NaN = NaN"
| "js_div (Fin x) (Fin y) =
     (if y = 0 then (if x = 0 then NaN else if 0 < x then PInf else NInf)
      else round_double (x / y))"
| "js_div (Fin x) b = Fin 0"
| "js_div a (Fin y) = (if is_neg a = (y < 0) then PInf else NInf)"
| "js_div a b = NaN"

fun js_abs :: "jsnum \<Rightarrow> jsnum" where
  "js_abs (Fin x) = Fin \<bar>x\<bar>"
| "js_abs PInf = PInf"
| "js_abs NInf = PInf"
| "js_abs NaN = NaN"

fun js_ge :: "jsnum \<Rightarrow> jsnum \<Rightarrow> bool" where
  "js_ge NaN b = False"
| "js_ge a NaN = False"
| "js_ge (Fin x) (Fin y) = (y \<le> x)"
| "js_ge PInf b = True"
| "js_ge a NInf = True"
| "js_ge a b = False"

fun js_gt :: "jsnum \<Rightarrow> jsnum \<Rightarrow> bool" where
  "js_gt NaN b = False"
| "js_gt a NaN = False"
| "js_gt (Fin x) (Fin y) = (y < x)"
| "js_gt PInf PInf = False"
| "js_gt PInf b = True"
| "js_gt NInf b = False"
| "js_gt a NInf = True"
| "js_gt a b = False"

fun truthy :: "jsnum \<Rightarrow> bool" where
  \<comment> \<open>\<open>ToBoolean\<close>: \<open>0\<close> and \<open>NaN\<close> are falsy\<close>
  "truthy (Fin x) = (x \<noteq> 0)"
| "truthy NaN = False"
| "truthy a = True"

section \<open>Strings: \<open>String.prototype.replace\<close> and \<open>parseFloat\<close>\<close>

fun js_replace :: "string \<Rightarrow> string \<Rightarrow> string \<Rightarrow> string" where
  \<comment> \<open>\<open>s.replace(pat, rep)\<close> with a string pattern: the first occurrence only\<close>
  "js_replace pat rep s =
     (if prefix pat s then rep @ drop (length pat) s
      else case s of [] \<Rightarrow> [] | c # cs \<Rightarrow> c # js_replace pat rep cs)"

definition is_digit :: "char \<Rightarrow> bool" where
  "is_digit c = (48 \<le> (of_char c :: int) \<and> (of_char c :: int) \<le> 57)"

definition is_space :: "char \<Rightarrow> bool" where
  \<comment> \<open>the ASCII white space and line terminators: TAB, LF, VT, FF, CR, SP. Strings
      are byte strings; the white space outside ASCII that \<open>parseFloat\<close> also skips
      (U+00A0, U+FEFF and the other Unicode spaces) is not skipped by the model.\<close>
  "is_space c = ((of_char c :: int) \<in> {9, 10, 11, 12, 13, 32})"

definition digits_val :: "string \<Rightarrow> int" where
  "digits_val ds = foldl (\<lambda>v c. 10 * v + (of_char c - 48)) 0 ds"

definition exponent_part :: "string \<Rightarrow> int" where
  \<comment> \<open>\<open>ExponentPart\<close>: \<open>e\<close> or \<open>E\<close>, an optional sign, at least one digit; otherwise none\<close>
  "exponent_part s =
     (case s of
        [] \<Rightarrow> 0
      | c # t \<Rightarrow>
          if c = CHR ''e'' \<or> c = CHR ''E'' then
            (case t of
               [] \<Rightarrow> 0
             | d # u \<Rightarrow>
                 if d = CHR ''-'' then - digits_val (takeWhile is_digit u)
                 else if d = CHR ''+'' then digits_val (takeWhile is_digit u)
                 else digits_val (takeWhile is_digit t))
          else 0)"

definition scale10 :: "int \<Rightarrow> int \<Rightarrow> rat" where
  "scale10 m e = (if 0 \<le> e then of_int m * 10 ^ nat e else of_int m / 10 ^ nat (- e))"

definition unsigned_literal :: "string \<Rightarrow> rat option" where
  \<comment> \<open>the mathematical value of the longest prefix that is a \<open>StrUnsignedDecimalLiteral\<close>
      other than \<open>Infinity\<close>, if there is one\<close>
  "unsigned_literal s =
     (let ip = takeWhile is_digit s; r1 = dropWhile is_digit s
      in case r1 of
           c # t \<Rightarrow>
             if c = CHR ''.'' then
               (let fp = takeWhile is_digit t; r2 = dropWhile is_digit t
                in if ip = [] \<and> fp = [] then None
                   else Some (scale10 (digits_val (ip @ fp))
                                (exponent_part r2 - int (length fp))))
             else if ip = [] then None
             else Some (scale10 (digits_val ip) (exponent_part r1))
         | [] \<Rightarrow> if ip = [] then None else Some (of_int (digits_val ip)))"

definition parse_unsigned :: "bool \<Rightarrow> string \<Rightarrow> jsnum" where
  "parse_unsigned negative s =
     (if prefix ''Infinity'' s then (if negative then NInf else PInf)
      else case unsigned_literal s of
             None \<Rightarrow> NaN
           | Some v \<Rightarrow> round_double (if negative then - v else v))"

definition parseFloat :: "string \<Rightarrow> jsnum" where
  "parseFloat s =
     (case dropWhile is_space s of
        [] \<Rightarrow> NaN
      | c # t \<Rightarrow>
          if c = CHR ''-'' then parse_unsigned True t
          else if c = CHR ''+'' then parse_unsigned False t
          else parse_unsigned False (c # t))"

declare js_replace.simps [simp del]

section \<open>The rate-limited quote fetcher: \<open>fetchMarketData\<close>\<close>

text \<open>
  What the quote provider answers to the request for one symbol, as far as the fetcher
  looks at it. \<open>RequestError\<close> stands for every way in which the statements before
  the \<open>if\<close> throw: \<open>fetch(url)\<close> or \<open>response.json()\<close> rejects (network failure, a
  body that is not JSON), or the body is \<open>null\<close>, so that reading its member
  \<open>'Global Quote'\<close> throws. \<open>JsonBody None\<close> is a JSON body other than \<open>null\<close>
  without a truthy \<open>'Global Quote'\<close> member, \<open>JsonBody (Some gq)\<close> one that has the
  object; a member of the object that is absent is \<open>None\<close>. The member
  \<open>'01. symbol'\<close> is never read.
\<close>

record global_quote =
  f05_price :: "string option"
  f10_change_percent :: "string option"

datatype provider_response = RequestError | JsonBody "global_quote option"

record MarketDataUpdate =
  md_symbol :: string
  md_price :: jsnum
  md_change_percent :: jsnum

datatype js_error = Error string | TypeError string

fun error_message :: "js_error \<Rightarrow> string" where
  "error_message (Error m) = m"
| "error_message (TypeError m) = m"

text \<open>
  The fetcher's effects on the outside world are a trace of events: the requests it
  issues and the delays it awaits (\<open>setTimeout\<close>, in milliseconds). Console output
  is not part of the model.
\<close>

datatype event = Request string | Delay nat

record fetch_state =
  results :: "MarketDataUpdate list"
  trace :: "event list"

definition await_delay :: "nat \<Rightarrow> fetch_state \<Rightarrow> fetch_state" where
  \<comment> \<open>\<open>await new Promise(resolve => setTimeout(resolve, ms))\<close>\<close>
  "await_delay ms s = s\<lparr>trace := trace s @ [Delay ms]\<rparr>"

definition try_body ::
  "(string \<Rightarrow> provider_response) \<Rightarrow> string \<Rightarrow> fetch_state
     \<Rightarrow> (js_error \<times> fetch_state) + fetch_state" where
  \<comment> \<open>the body of the \<open>try\<close> block for one symbol; \<open>Inl\<close> is a thrown exception
      together with the state at the point where it is thrown. Of the strings only the
      empty one is falsy, and an absent member is \<open>undefined\<close>.\<close>
  "try_body provider symbol s =
     (let s1 = s\<lparr>trace := trace s @ [Request symbol]\<rparr>
      in case provider symbol of
           RequestError \<Rightarrow> Inl (Error ''fetch failed'', s1)
         | JsonBody data \<Rightarrow>
             (case data of
                None \<Rightarrow> Inr (await_delay 12000 s1)
              | Some gq \<Rightarrow>
                  (case f05_price gq of
                     None \<Rightarrow> Inr (await_delay 12000 s1)
                   | Some p \<Rightarrow>
                       if p \<noteq> [] then
                         (let price = parseFloat p
                          in case f10_change_percent gq of
                               None \<Rightarrow> Inl (TypeError ''replace of undefined'', s1)
                             | Some cp \<Rightarrow>
                                 (let changePercentStr = js_replace ''%'' [] cp;
                                      changePercent = parseFloat changePercentStr;
                                      s2 = s1\<lparr>results := results s1 @
                                             [\<lparr>md_symbol = symbol, md_price = price,
                                               md_change_percent = changePercent\<rparr>]\<rparr>
                                  in Inr (await_delay 12000 s2)))
                       else Inr (await_delay 12000 s1))))"

fun fetch_loop ::
  "(string \<Rightarrow> provider_response) \<Rightarrow> string list \<Rightarrow> fetch_state
     \<Rightarrow> js_error + fetch_state" where
  \<comment> \<open>\<open>for (const symbol of symbols) { try { ... } catch (error) { console.error(...) } }\<close>\<close>
  "fetch_loop provider [] s = Inr s"
| "fetch_loop provider (symbol # rest) s =
     (case try_body provider symbol s of
        Inl (error, s') \<Rightarrow> fetch_loop provider rest s'
      | Inr s' \<Rightarrow> fetch_loop provider rest s')"

definition fetchMarketData ::
  "(string \<Rightarrow> provider_response) \<Rightarrow> string list \<Rightarrow> event list
     \<Rightarrow> js_error + (MarketDataUpdate list \<times> event list)" where
  \<comment> \<open>the third argument is the trace of the world before the call\<close>
  "fetchMarketData provider symbols tr =
     (case fetch_loop provider symbols \<lparr>results = [], trace = tr\<rparr> of
        Inl e \<Rightarrow> Inl e
      | Inr s \<Rightarrow> Inr (results s, trace s))"

text \<open>
  The quote that the fetcher pushes for a symbol, read off the provider's answer: the
  condition of the \<open>if\<close> holds and no statement of its branch throws.
\<close>

definition parsed_quote ::
  "(string \<Rightarrow> provider_response) \<Rightarrow> string \<Rightarrow> MarketDataUpdate option" where
  "parsed_quote provider symbol =
     (case provider symbol of
        RequestError \<Rightarrow> None
      | JsonBody None \<Rightarrow> None
      | JsonBody (Some gq) \<Rightarrow>
          (case (f05_price gq, f10_change_percent gq) of
             (Some p, Some cp) \<Rightarrow>
               if p = [] then None
               else Some \<lparr>md_symbol = symbol, md_price = parseFloat p,
                          md_change_percent = parseFloat (js_replace ''%'' [] cp)\<rparr>
           | _ \<Rightarrow> None))"

text \<open>
  An answer from which the fetcher gets no quote: the request fails, the body has no
  \<open>'Global Quote'\<close>, the price member is absent or empty, or the change-percent member
  is absent (then \<open>replace\<close> is called on \<open>undefined\<close> and throws).
\<close>

definition no_usable_quote :: "provider_response \<Rightarrow> bool" where
  "no_usable_quote r =
     (case r of
        RequestError \<Rightarrow> True
      | JsonBody None \<Rightarrow> True
      | JsonBody (Some gq) \<Rightarrow>
          (case f05_price gq of
             None \<Rightarrow> True
           | Some p \<Rightarrow> p = [] \<or> f10_change_percent gq = None))"

text \<open>
  An answer that makes the \<open>try\<close> block end in an exception: the request fails, or the
  price is there and the change-percent member is not.
\<close>

definition request_throws :: "provider_response \<Rightarrow> bool" where
  "request_throws r =
     (case r of
        RequestError \<Rightarrow> True
      | JsonBody None \<Rightarrow> False
      | JsonBody (Some gq) \<Rightarrow>
          (case f05_price gq of
             None \<Rightarrow> False
           | Some p \<Rightarrow> p \<noteq> [] \<and> f10_change_percent gq = None))"

text \<open>
  The pacing the rate limit asks for, as a property of a trace: every request is followed
  by a delay of at least 12 seconds before the next request and before the end.
\<close>

fun paced :: "event list \<Rightarrow> bool" where
  "paced [] = True"
| "paced (Delay d # es) = paced es"
| "paced (Request a # Delay d # es) = (12000 \<le> d \<and> paced es)"
| "paced (Request a # es) = False"

section \<open>The store\<close>

text \<open>
  The tables the job reads and writes, with the columns it reads and writes. The
  table \<open>market_data\<close> has one row per symbol (\<open>symbol TEXT NOT NULL UNIQUE\<close>) and is
  a map from symbols to rows; the other tables are lists of rows in the order in which
  the store returns them. Columns the store fills in by itself (\<open>id\<close>, \<open>created_at\<close>,
  \<open>read\<close>) are left out. The store is a reliable collaborator: every write the job
  issues is applied as it is, and a read returns the rows, except for the two reads whose
  error the handler checks (see \<open>env\<close> below).
\<close>

record portfolio =
  p_id :: string
  p_owner_id :: string

record transaction =
  t_portfolio_id :: string
  t_symbol :: string

record quote_row =
  q_price :: jsnum
  q_change_percent :: jsnum
  q_updated_at :: string

record historical_price =
  h_symbol :: string
  h_price :: jsnum
  h_close_price :: jsnum
  h_recorded_at :: string

record alert_threshold =
  a_user_id :: string
  a_symbol :: string
  a_threshold_percent :: jsnum

text \<open>
  The message of a notification is the template
  \<^verbatim>\<open>${symbol} price changed by ${changePercent.toFixed(2)}%: $${oldPrice.toFixed(2)} -> $${newPrice.toFixed(2)}\<close>;
  the model keeps the symbol and the three numbers that are formatted into it.
\<close>

datatype message = PriceChanged string jsnum jsnum jsnum

record notification =
  n_user_id :: string
  n_symbol :: string
  n_message :: message
  n_type :: string

record audit_entry =
  au_user_id :: string
  au_action :: string
  au_resource_type :: string
  au_symbols :: "string list"
  au_count :: nat
  au_status_code :: nat

record store =
  portfolios :: "portfolio list"
  transactions :: "transaction list"
  market_data :: "string \<rightharpoonup> quote_row"
  historical_prices :: "historical_price list"
  alert_thresholds :: "alert_threshold list"
  notifications :: "notification list"
  audit_logs :: "audit_entry list"

section \<open>The threshold alert evaluator: \<open>checkPriceAlerts\<close>\<close>

definition change_percent :: "jsnum \<Rightarrow> jsnum \<Rightarrow> jsnum" where
  \<comment> \<open>\<open>((newPrice - oldPrice) / oldPrice) * 100\<close>\<close>
  "change_percent oldPrice newPrice =
     js_mul (js_div (js_sub newPrice oldPrice) oldPrice) (Fin 100)"

definition checkPriceAlerts :: "store \<Rightarrow> string \<Rightarrow> string \<Rightarrow> jsnum \<Rightarrow> jsnum \<Rightarrow> store" where
  "checkPriceAlerts supabase userId symbol oldPrice newPrice =
     (let changePercent = change_percent oldPrice newPrice;
          thresholds = filter (\<lambda>t. a_user_id t = userId \<and> a_symbol t = symbol)
                         (alert_thresholds supabase)
      in case thresholds of
           [] \<Rightarrow> supabase
         | threshold # others \<Rightarrow>
             if js_ge (js_abs changePercent) (a_threshold_percent threshold) then
               supabase\<lparr>notifications := notifications supabase @
                 [\<lparr>n_user_id = userId, n_symbol = symbol,
                   n_message = PriceChanged symbol changePercent oldPrice newPrice,
                   n_type = ''price_alert''\<rparr>]\<rparr>
             else supabase)"

section \<open>The job orchestrator: the \<open>Deno.serve\<close> handler\<close>

text \<open>
  What the handler gets from outside the store: the auth collaborator (\<open>env_getUser\<close>
  maps a token to the id of its user, \<open>None\<close> when \<open>getUser\<close> reports an error or no
  user), the quote provider, the clock (\<open>env_clock k\<close> is what the \<open>k\<close>-th evaluation
  of \<open>new Date().toISOString()\<close> in the invocation returns) and the error, if any, that
  the store reports for the read of \<open>portfolios\<close> and for the read of \<open>transactions\<close>.
\<close>

record env =
  env_getUser :: "string \<Rightarrow> string option"
  env_provider :: "string \<Rightarrow> provider_response"
  env_clock :: "nat \<Rightarrow> string"
  env_portfolios_error :: "string option"
  env_transactions_error :: "string option"

record request =
  req_method :: string
  req_authorization :: "string option"

record refresh_summary =
  r_success :: bool
  r_updated :: nat
  r_symbols :: "string list"
  r_source :: string
  r_note :: string

datatype body = Message string | Refreshed refresh_summary | ErrorBody string

datatype http_response = Preflight | Json nat body

record world =
  w_store :: store
  w_trace :: "event list"
  w_ticks :: nat

definition unique_symbols :: "string list \<Rightarrow> string list" where
  \<comment> \<open>\<open>[...new Set(xs)]\<close>: a set keeps the order of first insertion\<close>
  "unique_symbols xs = foldl (\<lambda>acc x. if x \<in> set acc then acc else acc @ [x]) [] xs"

definition select_portfolios :: "store \<Rightarrow> string \<Rightarrow> portfolio list" where
  \<comment> \<open>\<open>from('portfolios').select('id').eq('owner_id', user.id)\<close>\<close>
  "select_portfolios st user_id = filter (\<lambda>p. p_owner_id p = user_id) (portfolios st)"

definition select_transactions :: "store \<Rightarrow> portfolio list \<Rightarrow> transaction list" where
  \<comment> \<open>\<open>from('transactions').select('symbol').in('portfolio_id', portfolios.map(p => p.id))\<close>\<close>
  "select_transactions st ps =
     filter (\<lambda>t. t_portfolio_id t \<in> set (map p_id ps)) (transactions st)"

definition select_current_prices :: "store \<Rightarrow> string list \<Rightarrow> (string \<rightharpoonup> jsnum)" where
  \<comment> \<open>\<open>from('market_data').select('symbol, price').in('symbol', uniqueSymbols)\<close>, turned
      into the \<open>Map\<close> from symbol to price\<close>
  "select_current_prices st uniqueSymbols =
     (\<lambda>s. if s \<in> set uniqueSymbols then map_option q_price (market_data st s) else None)"

definition old_price :: "(string \<rightharpoonup> jsnum) \<Rightarrow> MarketDataUpdate \<Rightarrow> jsnum" where
  \<comment> \<open>\<open>currentPrices.get(data.symbol) || data.price\<close>\<close>
  "old_price currentPrices d =
     (case currentPrices (md_symbol d) of
        None \<Rightarrow> md_price d
      | Some p \<Rightarrow> if truthy p then p else md_price d)"

definition persist_one ::
  "env \<Rightarrow> string \<Rightarrow> (string \<rightharpoonup> jsnum) \<Rightarrow> MarketDataUpdate \<Rightarrow> store \<times> nat \<Rightarrow> store \<times> nat" where
  \<comment> \<open>one iteration of \<open>for (const data of marketData)\<close>; the number is the count of
      clock readings so far\<close>
  "persist_one e user_id currentPrices d sk =
     (let st = fst sk; k = snd sk;
          oldPrice = old_price currentPrices d;
          st1 = st\<lparr>market_data := (market_data st)(md_symbol d \<mapsto>
                  \<lparr>q_price = md_price d, q_change_percent = md_change_percent d,
                    q_updated_at = env_clock e k\<rparr>)\<rparr>;
          st2 = st1\<lparr>historical_prices := historical_prices st1 @
                  [\<lparr>h_symbol = md_symbol d, h_price = md_price d,
                    h_close_price = md_price d, h_recorded_at = env_clock e (k + 1)\<rparr>]\<rparr>
      in (checkPriceAlerts st2 user_id (md_symbol d) oldPrice (md_price d), k + 2))"

fun persist_loop ::
  "env \<Rightarrow> string \<Rightarrow> (string \<rightharpoonup> jsnum) \<Rightarrow> MarketDataUpdate list \<Rightarrow> store \<times> nat \<Rightarrow> store \<times> nat" where
  "persist_loop e user_id currentPrices [] sk = sk"
| "persist_loop e user_id currentPrices (d # ds) sk =
     persist_loop e user_id currentPrices ds (persist_one e user_id currentPrices d sk)"

definition refresh_note :: "nat \<Rightarrow> nat \<Rightarrow> string" where
  "refresh_note n_updated n_requested =
     (if n_updated < n_requested
      then ''Some symbols could not be updated due to API availability''
      else ''All symbols updated successfully'')"

definition write_audit :: "string \<Rightarrow> string list \<Rightarrow> nat \<Rightarrow> store \<Rightarrow> store" where
  \<comment> \<open>\<open>from('audit_logs').insert({...})\<close>\<close>
  "write_audit user_id uniqueSymbols n st =
     st\<lparr>audit_logs := audit_logs st @
       [\<lparr>au_user_id = user_id, au_action = ''REFRESH_MARKET_DATA'',
         au_resource_type = ''market_data'', au_symbols = uniqueSymbols,
         au_count = n, au_status_code = 200\<rparr>]\<rparr>"

definition refresh_phase ::
  "env \<Rightarrow> string \<Rightarrow> string list \<Rightarrow> world \<Rightarrow> (js_error \<times> world) + (http_response \<times> world)" where
  \<comment> \<open>the handler from the read of the current prices to the success response: the
      fetch phase, the persist loop, the audit entry and the response\<close>
  "refresh_phase e user_id uniqueSymbols w =
     (let currentPrices = select_current_prices (w_store w) uniqueSymbols
      in case fetchMarketData (env_provider e) uniqueSymbols (w_trace w) of
           Inl err \<Rightarrow> Inl (err, w)
         | Inr (marketData, tr) \<Rightarrow>
             (let sk = persist_loop e user_id currentPrices marketData (w_store w, w_ticks w);
                  st = write_audit user_id uniqueSymbols (length marketData) (fst sk)
              in Inr (Json 200 (Refreshed
                        \<lparr>r_success = True,
                         r_updated = length marketData,
                         r_symbols = uniqueSymbols,
                         r_source = ''Alpha Vantage (Real-time data)'',
                         r_note = refresh_note (length marketData) (length uniqueSymbols)\<rparr>),
                      \<lparr>w_store = st, w_trace = tr, w_ticks = snd sk\<rparr>)))"

definition serve_try :: "env \<Rightarrow> request \<Rightarrow> world \<Rightarrow> (js_error \<times> world) + (http_response \<times> world)" where
  \<comment> \<open>the body of the handler's \<open>try\<close> block; \<open>Inl\<close> is a thrown exception. A header
      that is absent or empty is falsy.\<close>
  "serve_try e req w =
     (case req_authorization req of
        None \<Rightarrow> Inl (Error ''No authorization header'', w)
      | Some authHeader \<Rightarrow>
          if authHeader = [] then Inl (Error ''No authorization header'', w)
          else
            (case env_getUser e (js_replace ''Bearer '' [] authHeader) of
               None \<Rightarrow> Inl (Error ''Unauthorized'', w)
             | Some user_id \<Rightarrow>
                 (case env_portfolios_error e of
                    Some portfoliosError \<Rightarrow> Inl (Error portfoliosError, w)
                  | None \<Rightarrow>
                      (let ps = select_portfolios (w_store w) user_id
                       in if ps = [] then Inr (Json 200 (Message ''No portfolios found''), w)
                          else
                            (case env_transactions_error e of
                               Some transactionsError \<Rightarrow> Inl (Error transactionsError, w)
                             | None \<Rightarrow>
                                 (let uniqueSymbols =
                                        unique_symbols
                                          (map t_symbol (select_transactions (w_store w) ps))
                                  in if uniqueSymbols = []
                                     then Inr (Json 200 (Message ''No symbols to update''), w)
                                     else refresh_phase e user_id uniqueSymbols w))))))"

definition handler :: "env \<Rightarrow> request \<Rightarrow> world \<Rightarrow> http_response \<times> world" where
  "handler e req w =
     (if req_method req = ''OPTIONS'' then (Preflight, w)
      else case serve_try e req w of
             Inl (error, w') \<Rightarrow> (Json 500 (ErrorBody (error_message error)), w')
           | Inr r \<Rightarrow> r)"

section \<open>Notions used in the statements\<close>

text \<open>
  The symbols a run for \<open>user_id\<close> resolves from the store: the distinct symbols of the
  transactions of the user's portfolios.
\<close>

definition requested_symbols :: "store \<Rightarrow> string \<Rightarrow> string list" where
  "requested_symbols st user_id =
     unique_symbols (map t_symbol (select_transactions st (select_portfolios st user_id)))"

text \<open>
  The caller of a run that gets past authentication, the two checked reads and the two
  no-op returns, and so reaches the fetch phase; \<open>None\<close> for every other run.
\<close>

definition fetch_phase_caller :: "env \<Rightarrow> request \<Rightarrow> world \<Rightarrow> string option" where
  "fetch_phase_caller e req w =
     (if req_method req = ''OPTIONS'' then None
      else
        (case req_authorization req of
           None \<Rightarrow> None
         | Some authHeader \<Rightarrow>
             if authHeader = [] then None
             else
               (case env_getUser e (js_replace ''Bearer '' [] authHeader) of
                  None \<Rightarrow> None
                | Some user_id \<Rightarrow>
                    (case env_portfolios_error e of
                       Some err \<Rightarrow> None
                     | None \<Rightarrow>
                         if select_portfolios (w_store w) user_id = [] then None
                         else
                           (case env_transactions_error e of
                              Some err \<Rightarrow> None
                            | None \<Rightarrow>
                                if requested_symbols (w_store w) user_id = [] then None
                                else Some user_id)))))"

text \<open>The quotes a run fetches for the symbols it asks for.\<close>

definition fetched :: "env \<Rightarrow> string list \<Rightarrow> MarketDataUpdate list" where
  "fetched e syms = List.map_filter (parsed_quote (env_provider e)) syms"

text \<open>
  What one call of the evaluator for a user, a symbol, an old and a new price creates,
  given the rows of \<open>alert_thresholds\<close>: the notification for that user and symbol when
  the user's first threshold row for the symbol is reached, nothing otherwise.
\<close>

definition evaluated_alert ::
  "alert_threshold list \<Rightarrow> string \<Rightarrow> string \<Rightarrow> jsnum \<Rightarrow> jsnum \<Rightarrow> notification list" where
  "evaluated_alert rows userId symbol oldPrice newPrice =
     (case filter (\<lambda>t. a_user_id t = userId \<and> a_symbol t = symbol) rows of
        [] \<Rightarrow> []
      | threshold # others \<Rightarrow>
          if js_ge (js_abs (change_percent oldPrice newPrice)) (a_threshold_percent threshold)
          then [\<lparr>n_user_id = userId, n_symbol = symbol,
                 n_message = PriceChanged symbol (change_percent oldPrice newPrice)
                               oldPrice newPrice,
                 n_type = ''price_alert''\<rparr>]
          else [])"

section \<open>Example runs\<close>

text \<open>
  A store with two users. User \<open>u1\<close> holds \<open>A\<close>, \<open>B\<close> and \<open>C\<close>, user \<open>u2\<close> holds \<open>A\<close> and
  \<open>D\<close>; \<open>A\<close> and \<open>B\<close> have a quote row, \<open>C\<close> and \<open>D\<close> have none. Both users have a
  threshold for \<open>A\<close>; \<open>u1\<close> has a threshold of 0 percent for \<open>C\<close>, \<open>u2\<close> one of 5
  percent for \<open>D\<close>. User \<open>u3\<close> has no portfolio.
\<close>

definition ex_store :: store where
  "ex_store =
     \<lparr>portfolios = [\<lparr>p_id = ''p1'', p_owner_id = ''u1''\<rparr>, \<lparr>p_id = ''p2'', p_owner_id = ''u2''\<rparr>],
      transactions =
        [\<lparr>t_portfolio_id = ''p1'', t_symbol = ''A''\<rparr>, \<lparr>t_portfolio_id = ''p1'', t_symbol = ''B''\<rparr>,
         \<lparr>t_portfolio_id = ''p1'', t_symbol = ''A''\<rparr>, \<lparr>t_portfolio_id = ''p1'', t_symbol = ''C''\<rparr>,
         \<lparr>t_portfolio_id = ''p2'', t_symbol = ''A''\<rparr>, \<lparr>t_portfolio_id = ''p2'', t_symbol = ''D''\<rparr>],
      market_data =
        [''A'' \<mapsto> \<lparr>q_price = Fin 100, q_change_percent = Fin 0, q_updated_at = ''t0''\<rparr>,
         ''B'' \<mapsto> \<lparr>q_price = Fin 50, q_change_percent = Fin 0, q_updated_at = ''t0''\<rparr>],
      historical_prices = [],
      alert_thresholds =
        [\<lparr>a_user_id = ''u1'', a_symbol = ''A'', a_threshold_percent = Fin 5\<rparr>,
         \<lparr>a_user_id = ''u2'', a_symbol = ''A'', a_threshold_percent = Fin 1\<rparr>,
         \<lparr>a_user_id = ''u1'', a_symbol = ''C'', a_threshold_percent = Fin 0\<rparr>,
         \<lparr>a_user_id = ''u2'', a_symbol = ''D'', a_threshold_percent = Fin 5\<rparr>],
      notifications = [],
      audit_logs = []\<rparr>"

text \<open>
  The provider has quotes for \<open>A\<close>, \<open>C\<close> and \<open>D\<close>; for every other symbol it answers
  with an empty \<open>'Global Quote'\<close> object.
\<close>

definition ex_provider :: "string \<Rightarrow> provider_response" where
  "ex_provider s =
     (if s = ''A'' then
        JsonBody (Some \<lparr>f05_price = Some ''105.00'', f10_change_percent = Some ''5.00%''\<rparr>)
      else if s = ''C'' then
        JsonBody (Some \<lparr>f05_price = Some ''20.00'', f10_change_percent = Some ''0.50%''\<rparr>)
      else if s = ''D'' then
        JsonBody (Some \<lparr>f05_price = Some ''7.50'', f10_change_percent = Some ''0.25%''\<rparr>)
      else JsonBody (Some \<lparr>f05_price = None, f10_change_percent = None\<rparr>))"

definition ex_getUser :: "string \<Rightarrow> string option" where
  "ex_getUser token =
     (if token = ''tok1'' then Some ''u1''
      else if token = ''tok2'' then Some ''u2''
      else if token = ''tok3'' then Some ''u3''
      else None)"

definition ex_clock :: "nat \<Rightarrow> string" where
  "ex_clock k = ''t'' @ replicate k (CHR ''+'')"

definition ex_env :: env where
  "ex_env =
     \<lparr>env_getUser = ex_getUser, env_provider = ex_provider, env_clock = ex_clock,
      env_portfolios_error = None, env_transactions_error = None\<rparr>"

definition ex_req :: "string \<Rightarrow> request" where
  "ex_req token = \<lparr>req_method = ''POST'', req_authorization = Some (''Bearer '' @ token)\<rparr>"

definition ex_world :: world where
  "ex_world = \<lparr>w_store = ex_store, w_trace = [], w_ticks = 0\<rparr>"

definition threshold_store :: "jsnum \<Rightarrow> store" where
  \<comment> \<open>a store whose only row is a threshold of user \<open>u1\<close> for \<open>A\<close>\<close>
  "threshold_store thr =
     \<lparr>portfolios = [], transactions = [], market_data = Map.empty, historical_prices = [],
      alert_thresholds = [\<lparr>a_user_id = ''u1'', a_symbol = ''A'', a_threshold_percent = thr\<rparr>],
      notifications = [], audit_logs = []\<rparr>"


text \<open>The provider of the pacing example: the request for \<open>A\<close> fails, \<open>B\<close> has no data.\<close>

definition failing_provider :: "string \<Rightarrow> provider_response" where
  "failing_provider s = (if s = ''A'' then RequestError else JsonBody None)"



section \<open>Properties of the fetcher\<close>

lemma try_body_results:
  "(case try_body provider symbol s of Inl (e, s') \<Rightarrow> results s' | Inr s' \<Rightarrow> results s') =
     results s @ (case parsed_quote provider symbol of None \<Rightarrow> [] | Some q \<Rightarrow> [q])"
  by (simp add: try_body_def parsed_quote_def Let_def await_delay_def
        split: provider_response.splits option.splits)

lemma fetch_loop_results:
  "\<exists>s'. fetch_loop provider syms s = Inr s' \<and>
        results s' = results s @ List.map_filter (parsed_quote provider) syms"
proof (induction syms arbitrary: s)
  case Nil
  show ?case by simp
next
  case (Cons a syms)
  let ?pushed = "case parsed_quote provider a of None \<Rightarrow> [] | Some q \<Rightarrow> [q]"
  show ?case
  proof (cases "try_body provider a s")
    case (Inl p)
    obtain err s1 where p: "p = (err, s1)" by (cases p)
    from Cons.IH [of s1] obtain s' where
      "fetch_loop provider syms s1 = Inr s'"
      "results s' = results s1 @ List.map_filter (parsed_quote provider) syms" by blast
    moreover have "results s1 = results s @ ?pushed"
      using try_body_results [of provider a s] Inl p by simp
    ultimately show ?thesis using Inl p by (simp split: option.splits)
  next
    case (Inr s1)
    from Cons.IH [of s1] obtain s' where
      "fetch_loop provider syms s1 = Inr s'"
      "results s' = results s1 @ List.map_filter (parsed_quote provider) syms" by blast
    moreover have "results s1 = results s @ ?pushed"
      using try_body_results [of provider a s] Inr by simp
    ultimately show ?thesis using Inr by (simp split: option.splits)
  qed
qed

lemma fetchMarketData_results:
  "\<exists>tr'. fetchMarketData provider syms tr =
          Inr (List.map_filter (parsed_quote provider) syms, tr')"
  using fetch_loop_results [of provider syms "\<lparr>results = [], trace = tr\<rparr>"]
  by (auto simp: fetchMarketData_def)

lemma parsed_quote_symbol: "parsed_quote provider s = Some q \<Longrightarrow> md_symbol q = s"
  by (auto simp: parsed_quote_def split: provider_response.splits option.splits if_splits)

lemma map_symbol_parsed:
  "map md_symbol (List.map_filter (parsed_quote provider) syms) =
     filter (\<lambda>s. parsed_quote provider s \<noteq> None) syms"
  by (induction syms) (auto split: option.splits dest: parsed_quote_symbol)

text \<open>
  C2. For every symbol sequence and every assignment of provider answers to symbols,
  \<open>fetchMarketData\<close> returns normally (\<open>Inr\<close>, never a thrown exception), and what it
  returns is exactly the list of the quotes that parse, in input order: a symbol whose
  request fails or whose answer has no usable data contributes nothing, and the symbols
  after it are still fetched.
\<close>

theorem fetchMarketData_returns_parsed_quotes_in_order:
  "(\<exists>tr'. fetchMarketData provider syms tr =
            Inr (List.map_filter (parsed_quote provider) syms, tr')) \<and>
   map md_symbol (List.map_filter (parsed_quote provider) syms) =
     filter (\<lambda>s. parsed_quote provider s \<noteq> None) syms \<and>
   List.map_filter (parsed_quote provider) (before @ failed # after) =
     List.map_filter (parsed_quote provider) before @
     List.map_filter (parsed_quote provider) [failed] @
     List.map_filter (parsed_quote provider) after"
proof (intro conjI)
  show "\<exists>tr'. fetchMarketData provider syms tr =
          Inr (List.map_filter (parsed_quote provider) syms, tr')"
    by (rule fetchMarketData_results)
  show "map md_symbol (List.map_filter (parsed_quote provider) syms) =
          filter (\<lambda>s. parsed_quote provider s \<noteq> None) syms"
    by (rule map_symbol_parsed)
  show "List.map_filter (parsed_quote provider) (before @ failed # after) =
          List.map_filter (parsed_quote provider) before @
          List.map_filter (parsed_quote provider) [failed] @
          List.map_filter (parsed_quote provider) after"
    by (simp add: List.map_filter_def)
qed

text \<open>
  On the paths of the \<open>try\<close> block that end normally the delay is awaited: when no
  request throws, a paced trace stays paced.
\<close>

lemma paced_append: "paced tr \<Longrightarrow> paced (tr @ es) = paced es"
  by (induction tr rule: paced.induct) simp_all

lemma try_body_trace:
  "try_body provider symbol s =
     (if request_throws (provider symbol)
      then Inl (case provider symbol of
                  RequestError \<Rightarrow> Error ''fetch failed''
                | JsonBody data \<Rightarrow> TypeError ''replace of undefined'',
                s\<lparr>trace := trace s @ [Request symbol]\<rparr>)
      else Inr (s\<lparr>trace := trace s @ [Request symbol, Delay 12000],
                 results := results s @
                   (case parsed_quote provider symbol of None \<Rightarrow> [] | Some q \<Rightarrow> [q])\<rparr>))"
  by (simp add: try_body_def request_throws_def parsed_quote_def await_delay_def Let_def
        split: provider_response.splits option.splits)

lemma fetch_loop_paced:
  assumes "\<forall>s \<in> set syms. \<not> request_throws (provider s)"
    and "paced (trace s0)"
    and "fetch_loop provider syms s0 = Inr s'"
  shows "paced (trace s')"
  using assms
proof (induction syms arbitrary: s0)
  case Nil
  then show ?case by simp
next
  case (Cons a syms)
  let ?s1 = "s0\<lparr>trace := trace s0 @ [Request a, Delay 12000],
                 results := results s0 @
                   (case parsed_quote provider a of None \<Rightarrow> [] | Some q \<Rightarrow> [q])\<rparr>"
  from Cons.prems(1) have t: "try_body provider a s0 = Inr ?s1"
    by (simp add: try_body_trace)
  have "paced (trace ?s1)" using Cons.prems(2) by (simp add: paced_append)
  moreover have "fetch_loop provider syms ?s1 = Inr s'" using Cons.prems(3) t by simp
  moreover have "\<forall>s \<in> set syms. \<not> request_throws (provider s)" using Cons.prems(1) by simp
  ultimately show ?case using Cons.IH by blast
qed

lemma fetchMarketData_paced_when_nothing_throws:
  assumes "\<forall>s \<in> set syms. \<not> request_throws (provider s)"
    and "paced tr"
    and "fetchMarketData provider syms tr = Inr (rs, tr')"
  shows "paced tr'"
proof -
  from assms(3) obtain s' where "fetch_loop provider syms \<lparr>results = [], trace = tr\<rparr> = Inr s'"
    "trace s' = tr'"
    by (auto simp: fetchMarketData_def split: sum.splits)
  with fetch_loop_paced [OF assms(1), of "\<lparr>results = [], trace = tr\<rparr>" s'] assms(2)
  show ?thesis by simp
qed

text \<open>
  C3. The claim: every request, also one that fails, is followed by the 12 second delay
  before the next request. The delay is the last statement inside the \<open>try\<close> block, so
  an exception thrown by the request skips it: with the request for \<open>A\<close> failing, the
  request for \<open>B\<close> is issued right after the request for \<open>A\<close>, and the trace is not
  paced.
\<close>

theorem fetchMarketData_skips_delay_after_failed_request:
  "fetchMarketData failing_provider [''A'', ''B''] [] =
     Inr ([], [Request ''A'', Request ''B'', Delay 12000]) \<and>
   \<not> paced [Request ''A'', Request ''B'', Delay 12000]"
  by (simp add: fetchMarketData_def try_body_def failing_provider_def await_delay_def)

section \<open>Properties of the alert evaluator\<close>

lemma change_percent_100_105: "change_percent (Fin 100) (Fin 105) = Fin 5"
  by code_simp





section \<open>Properties of the persist loop and the handler\<close>

text \<open>
  The symbols a run asks for are distinct, so each symbol is requested once in a run and
  the provider's answer to it is one answer.
\<close>

lemma unique_symbols_acc:
  "distinct acc \<Longrightarrow>
     distinct (foldl (\<lambda>acc x. if x \<in> set acc then acc else acc @ [x]) acc xs) \<and>
     set (foldl (\<lambda>acc x. if x \<in> set acc then acc else acc @ [x]) acc xs) = set acc \<union> set xs"
  by (induction xs arbitrary: acc) auto

lemma unique_symbols_distinct:
  "distinct (unique_symbols xs)" "set (unique_symbols xs) = set xs"
  using unique_symbols_acc [of "[]" xs] by (simp_all add: unique_symbols_def)

lemma requested_symbols_distinct: "distinct (requested_symbols st u)"
  by (simp add: requested_symbols_def unique_symbols_distinct)

lemma checkPriceAlerts_frame:
  "market_data (checkPriceAlerts st u s old new) = market_data st"
  "audit_logs (checkPriceAlerts st u s old new) = audit_logs st"
  "alert_thresholds (checkPriceAlerts st u s old new) = alert_thresholds st"
  by (simp_all add: checkPriceAlerts_def Let_def split: list.splits)

lemma checkPriceAlerts_notifications:
  "\<exists>ns. notifications (checkPriceAlerts st u s old new) = notifications st @ ns \<and>
        length ns \<le> 1 \<and> (\<forall>n \<in> set ns. n_user_id n = u \<and> n_symbol n = s)"
  by (simp add: checkPriceAlerts_def Let_def split: list.splits)

lemma persist_one_frame:
  "audit_logs (fst (persist_one e u cp d sk)) = audit_logs (fst sk)"
  "alert_thresholds (fst (persist_one e u cp d sk)) = alert_thresholds (fst sk)"
  "market_data (fst (persist_one e u cp d sk)) =
     (market_data (fst sk))(md_symbol d \<mapsto>
        \<lparr>q_price = md_price d, q_change_percent = md_change_percent d,
         q_updated_at = env_clock e (snd sk)\<rparr>)"
  by (simp_all add: persist_one_def Let_def checkPriceAlerts_frame)

lemma persist_one_notifications:
  "\<exists>ns. notifications (fst (persist_one e u cp d sk)) = notifications (fst sk) @ ns \<and>
        length ns \<le> 1 \<and> (\<forall>n \<in> set ns. n_user_id n = u \<and> n_symbol n = md_symbol d)"
  using checkPriceAlerts_notifications
    [of "(fst sk)\<lparr>market_data := (market_data (fst sk))(md_symbol d \<mapsto>
                  \<lparr>q_price = md_price d, q_change_percent = md_change_percent d,
                    q_updated_at = env_clock e (snd sk)\<rparr>),
          historical_prices := historical_prices (fst sk) @
                  [\<lparr>h_symbol = md_symbol d, h_price = md_price d,
                    h_close_price = md_price d, h_recorded_at = env_clock e (snd sk + 1)\<rparr>]\<rparr>"
      u "md_symbol d" "old_price cp d" "md_price d"]
  by (simp add: persist_one_def Let_def)

lemma persist_loop_frame:
  "audit_logs (fst (persist_loop e u cp ds sk)) = audit_logs (fst sk)"
  "alert_thresholds (fst (persist_loop e u cp ds sk)) = alert_thresholds (fst sk)"
  by (induction ds arbitrary: sk) (simp_all add: persist_one_frame)

lemma persist_loop_market_data:
  "(S \<notin> md_symbol ` set ds \<and> market_data (fst (persist_loop e u cp ds sk)) S = market_data (fst sk) S) \<or>
   (\<exists>d \<in> set ds. \<exists>k. md_symbol d = S \<and>
      market_data (fst (persist_loop e u cp ds sk)) S =
        Some \<lparr>q_price = md_price d, q_change_percent = md_change_percent d,
              q_updated_at = env_clock e k\<rparr>)"
proof (induction ds arbitrary: sk)
  case Nil
  show ?case by simp
next
  case (Cons d ds)
  from Cons.IH [of "persist_one e u cp d sk"] show ?case
  proof
    assume a: "S \<notin> md_symbol ` set ds \<and>
      market_data (fst (persist_loop e u cp ds (persist_one e u cp d sk))) S =
      market_data (fst (persist_one e u cp d sk)) S"
    show ?thesis
    proof (cases "md_symbol d = S")
      case True
      with a show ?thesis by (auto simp: persist_one_frame)
    next
      case False
      with a show ?thesis by (simp add: persist_one_frame)
    qed
  next
    assume "\<exists>d' \<in> set ds. \<exists>k. md_symbol d' = S \<and>
      market_data (fst (persist_loop e u cp ds (persist_one e u cp d sk))) S =
        Some \<lparr>q_price = md_price d', q_change_percent = md_change_percent d',
              q_updated_at = env_clock e k\<rparr>"
    then show ?thesis by auto
  qed
qed

lemma persist_loop_notifications:
  "\<exists>ns. notifications (fst (persist_loop e u cp ds sk)) = notifications (fst sk) @ ns \<and>
        length ns \<le> length ds \<and>
        (\<forall>n \<in> set ns. n_user_id n = u \<and> n_symbol n \<in> md_symbol ` set ds)"
proof (induction ds arbitrary: sk)
  case Nil
  show ?case by simp
next
  case (Cons d ds)
  from persist_one_notifications [of e u cp d sk] obtain ns1 where 1:
    "notifications (fst (persist_one e u cp d sk)) = notifications (fst sk) @ ns1"
    "length ns1 \<le> 1" "\<forall>n \<in> set ns1. n_user_id n = u \<and> n_symbol n = md_symbol d" by blast
  from Cons.IH [of "persist_one e u cp d sk"] obtain ns2 where 2:
    "notifications (fst (persist_loop e u cp ds (persist_one e u cp d sk))) =
       notifications (fst (persist_one e u cp d sk)) @ ns2"
    "length ns2 \<le> length ds"
    "\<forall>n \<in> set ns2. n_user_id n = u \<and> n_symbol n \<in> md_symbol ` set ds" by blast
  have "notifications (fst (persist_loop e u cp (d # ds) sk)) = notifications (fst sk) @ (ns1 @ ns2)"
    using 1 2 by simp
  moreover have "length (ns1 @ ns2) \<le> length (d # ds)" using 1 2 by simp
  moreover have "\<forall>n \<in> set (ns1 @ ns2). n_user_id n = u \<and> n_symbol n \<in> md_symbol ` set (d # ds)"
    using 1 2 by auto
  ultimately show ?case by blast
qed

lemma refresh_phase_eq:
  "\<exists>tr'. refresh_phase e u syms w =
     Inr (Json 200 (Refreshed
            \<lparr>r_success = True, r_updated = length (fetched e syms), r_symbols = syms,
             r_source = ''Alpha Vantage (Real-time data)'',
             r_note = refresh_note (length (fetched e syms)) (length syms)\<rparr>),
          \<lparr>w_store = write_audit u syms (length (fetched e syms))
             (fst (persist_loop e u (select_current_prices (w_store w) syms) (fetched e syms)
                    (w_store w, w_ticks w))),
           w_trace = tr',
           w_ticks = snd (persist_loop e u (select_current_prices (w_store w) syms) (fetched e syms)
                    (w_store w, w_ticks w))\<rparr>)"
proof -
  from fetchMarketData_results [of "env_provider e" syms "w_trace w"] obtain tr' where
    "fetchMarketData (env_provider e) syms (w_trace w) = Inr (fetched e syms, tr')"
    by (auto simp: fetched_def)
  then show ?thesis by (simp add: refresh_phase_def Let_def)
qed

lemma handler_no_fetch:
  "fetch_phase_caller e req w = None \<Longrightarrow> snd (handler e req w) = w"
  by (auto simp: fetch_phase_caller_def handler_def serve_try_def requested_symbols_def Let_def
        split: option.splits if_splits)

lemma handler_fetch:
  "fetch_phase_caller e req w = Some u \<Longrightarrow>
     Inr (handler e req w) = refresh_phase e u (requested_symbols (w_store w) u) w"
  using refresh_phase_eq [of e u "requested_symbols (w_store w) u" w]
  by (auto simp: fetch_phase_caller_def handler_def serve_try_def requested_symbols_def Let_def
        split: option.splits if_splits)

lemma handler_fetch_store:
  assumes "fetch_phase_caller e req w = Some u"
  shows "w_store (snd (handler e req w)) =
           write_audit u (requested_symbols (w_store w) u)
             (length (fetched e (requested_symbols (w_store w) u)))
             (fst (persist_loop e u
                    (select_current_prices (w_store w) (requested_symbols (w_store w) u))
                    (fetched e (requested_symbols (w_store w) u)) (w_store w, w_ticks w)))"
proof -
  from refresh_phase_eq [of e u "requested_symbols (w_store w) u" w] obtain tr' r st k where
    "refresh_phase e u (requested_symbols (w_store w) u) w =
       Inr (r, \<lparr>w_store = st, w_trace = tr', w_ticks = k\<rparr>)"
    "st = write_audit u (requested_symbols (w_store w) u)
             (length (fetched e (requested_symbols (w_store w) u)))
             (fst (persist_loop e u
                    (select_current_prices (w_store w) (requested_symbols (w_store w) u))
                    (fetched e (requested_symbols (w_store w) u)) (w_store w, w_ticks w)))"
    by blast
  with handler_fetch [OF assms] show ?thesis by simp
qed

lemma handler_fetch_response:
  assumes "fetch_phase_caller e req w = Some u"
  shows "fst (handler e req w) =
           Json 200 (Refreshed
            \<lparr>r_success = True,
             r_updated = length (fetched e (requested_symbols (w_store w) u)),
             r_symbols = requested_symbols (w_store w) u,
             r_source = ''Alpha Vantage (Real-time data)'',
             r_note = refresh_note (length (fetched e (requested_symbols (w_store w) u)))
                        (length (requested_symbols (w_store w) u))\<rparr>)"
proof -
  from refresh_phase_eq [of e u "requested_symbols (w_store w) u" w] obtain r w' where
    "refresh_phase e u (requested_symbols (w_store w) u) w = Inr (r, w')"
    "r = Json 200 (Refreshed
            \<lparr>r_success = True,
             r_updated = length (fetched e (requested_symbols (w_store w) u)),
             r_symbols = requested_symbols (w_store w) u,
             r_source = ''Alpha Vantage (Real-time data)'',
             r_note = refresh_note (length (fetched e (requested_symbols (w_store w) u)))
                        (length (requested_symbols (w_store w) u))\<rparr>)"
    by blast
  with handler_fetch [OF assms] show ?thesis by simp
qed

lemma handler_no_fetch_response:
  "fetch_phase_caller e req w = None \<Longrightarrow> fst (handler e req w) \<noteq> Json 200 (Refreshed r)"
  by (auto simp: fetch_phase_caller_def handler_def serve_try_def requested_symbols_def Let_def
        split: option.splits if_splits)

lemma parsed_quote_None_iff:
  "parsed_quote provider s = None \<longleftrightarrow> no_usable_quote (provider s)"
  by (auto simp: parsed_quote_def no_usable_quote_def
        split: provider_response.splits option.splits)

lemma fetched_member:
  "d \<in> set (fetched e syms) \<Longrightarrow> parsed_quote (env_provider e) (md_symbol d) = Some d"
  by (induction syms)
     (auto simp: fetched_def split: option.splits dest: parsed_quote_symbol)

lemma length_fetched:
  "length (fetched e syms) = length (filter (\<lambda>s. \<not> no_usable_quote (env_provider e s)) syms)"
  by (induction syms) (auto simp: fetched_def parsed_quote_None_iff [symmetric] split: option.splits)

section \<open>The example runs, evaluated\<close>

lemma change_percent_20_20: "change_percent (Fin 20) (Fin 20) = Fin 0"
  by code_simp

lemma change_percent_15_2: "change_percent (Fin (15 / 2)) (Fin (15 / 2)) = Fin 0"
  by code_simp

lemma ex_world_simps:
  "w_store ex_world = ex_store" "w_ticks ex_world = 0" "w_trace ex_world = []"
  by (simp_all add: ex_world_def)

lemma ex_env_simps:
  "env_clock ex_env = ex_clock" "env_provider ex_env = ex_provider"
  by (simp_all add: ex_env_def)

lemma ex_store_simps:
  "market_data ex_store ''A'' =
     Some \<lparr>q_price = Fin 100, q_change_percent = Fin 0, q_updated_at = ''t0''\<rparr>"
  "market_data ex_store ''B'' =
     Some \<lparr>q_price = Fin 50, q_change_percent = Fin 0, q_updated_at = ''t0''\<rparr>"
  "market_data ex_store ''C'' = None"
  "market_data ex_store ''D'' = None"
  "historical_prices ex_store = []"
  "notifications ex_store = []"
  "audit_logs ex_store = []"
  "alert_thresholds ex_store =
     [\<lparr>a_user_id = ''u1'', a_symbol = ''A'', a_threshold_percent = Fin 5\<rparr>,
      \<lparr>a_user_id = ''u2'', a_symbol = ''A'', a_threshold_percent = Fin 1\<rparr>,
      \<lparr>a_user_id = ''u1'', a_symbol = ''C'', a_threshold_percent = Fin 0\<rparr>,
      \<lparr>a_user_id = ''u2'', a_symbol = ''D'', a_threshold_percent = Fin 5\<rparr>]"
  by (simp_all add: ex_store_def)

lemma ex_caller_u1: "fetch_phase_caller ex_env (ex_req ''tok1'') ex_world = Some ''u1''"
  by code_simp

lemma ex_symbols_u1: "requested_symbols ex_store ''u1'' = [''A'', ''B'', ''C'']"
  by code_simp

lemma ex_fetched_u1:
  "fetched ex_env [''A'', ''B'', ''C''] =
     [\<lparr>md_symbol = ''A'', md_price = Fin 105, md_change_percent = Fin 5\<rparr>,
      \<lparr>md_symbol = ''C'', md_price = Fin 20, md_change_percent = Fin (1 / 2)\<rparr>]"
  by code_simp

lemma ex_store_u1:
  "w_store (snd (handler ex_env (ex_req ''tok1'') ex_world)) =
     ex_store
       \<lparr>market_data := (market_data ex_store)
          (''A'' \<mapsto> \<lparr>q_price = Fin 105, q_change_percent = Fin 5, q_updated_at = ex_clock 0\<rparr>,
           ''C'' \<mapsto> \<lparr>q_price = Fin 20, q_change_percent = Fin (1 / 2), q_updated_at = ex_clock 2\<rparr>),
        historical_prices :=
          [\<lparr>h_symbol = ''A'', h_price = Fin 105, h_close_price = Fin 105, h_recorded_at = ex_clock 1\<rparr>,
           \<lparr>h_symbol = ''C'', h_price = Fin 20, h_close_price = Fin 20, h_recorded_at = ex_clock 3\<rparr>],
        notifications :=
          [\<lparr>n_user_id = ''u1'', n_symbol = ''A'',
            n_message = PriceChanged ''A'' (Fin 5) (Fin 100) (Fin 105), n_type = ''price_alert''\<rparr>,
           \<lparr>n_user_id = ''u1'', n_symbol = ''C'',
            n_message = PriceChanged ''C'' (Fin 0) (Fin 20) (Fin 20), n_type = ''price_alert''\<rparr>],
        audit_logs :=
          [\<lparr>au_user_id = ''u1'', au_action = ''REFRESH_MARKET_DATA'',
            au_resource_type = ''market_data'', au_symbols = [''A'', ''B'', ''C''],
            au_count = 2, au_status_code = 200\<rparr>]\<rparr>"
  unfolding handler_fetch_store [OF ex_caller_u1] ex_world_simps ex_symbols_u1 ex_fetched_u1
  by (simp add: persist_one_def write_audit_def old_price_def select_current_prices_def
        checkPriceAlerts_def change_percent_100_105 change_percent_20_20 ex_env_simps
        ex_store_simps Let_def numeral_2_eq_2 numeral_3_eq_3)

lemma ex_response_u1:
  "fst (handler ex_env (ex_req ''tok1'') ex_world) =
     Json 200 (Refreshed
       \<lparr>r_success = True, r_updated = 2, r_symbols = [''A'', ''B'', ''C''],
        r_source = ''Alpha Vantage (Real-time data)'',
        r_note = ''Some symbols could not be updated due to API availability''\<rparr>)"
  unfolding handler_fetch_response [OF ex_caller_u1] ex_world_simps ex_symbols_u1 ex_fetched_u1
  by (simp add: refresh_note_def)

lemma ex_caller_u2: "fetch_phase_caller ex_env (ex_req ''tok2'') ex_world = Some ''u2''"
  by code_simp

lemma ex_symbols_u2: "requested_symbols ex_store ''u2'' = [''A'', ''D'']"
  by code_simp

lemma ex_fetched_u2:
  "fetched ex_env [''A'', ''D''] =
     [\<lparr>md_symbol = ''A'', md_price = Fin 105, md_change_percent = Fin 5\<rparr>,
      \<lparr>md_symbol = ''D'', md_price = Fin (15 / 2), md_change_percent = Fin (1 / 4)\<rparr>]"
  by code_simp

lemma ex_store_u2:
  "w_store (snd (handler ex_env (ex_req ''tok2'') ex_world)) =
     ex_store
       \<lparr>market_data := (market_data ex_store)
          (''A'' \<mapsto> \<lparr>q_price = Fin 105, q_change_percent = Fin 5, q_updated_at = ex_clock 0\<rparr>,
           ''D'' \<mapsto> \<lparr>q_price = Fin (15 / 2), q_change_percent = Fin (1 / 4),
                   q_updated_at = ex_clock 2\<rparr>),
        historical_prices :=
          [\<lparr>h_symbol = ''A'', h_price = Fin 105, h_close_price = Fin 105, h_recorded_at = ex_clock 1\<rparr>,
           \<lparr>h_symbol = ''D'', h_price = Fin (15 / 2), h_close_price = Fin (15 / 2),
            h_recorded_at = ex_clock 3\<rparr>],
        notifications :=
          [\<lparr>n_user_id = ''u2'', n_symbol = ''A'',
            n_message = PriceChanged ''A'' (Fin 5) (Fin 100) (Fin 105), n_type = ''price_alert''\<rparr>],
        audit_logs :=
          [\<lparr>au_user_id = ''u2'', au_action = ''REFRESH_MARKET_DATA'',
            au_resource_type = ''market_data'', au_symbols = [''A'', ''D''],
            au_count = 2, au_status_code = 200\<rparr>]\<rparr>"
  unfolding handler_fetch_store [OF ex_caller_u2] ex_world_simps ex_symbols_u2 ex_fetched_u2
  by (simp add: persist_one_def write_audit_def old_price_def select_current_prices_def
        checkPriceAlerts_def change_percent_100_105 change_percent_15_2 ex_env_simps
        ex_store_simps Let_def numeral_2_eq_2 numeral_3_eq_3)

lemma ex_caller_u3: "fetch_phase_caller ex_env (ex_req ''tok3'') ex_world = None"
  by code_simp

lemma ex_token_u3: "js_replace ''Bearer '' [] ''Bearer tok3'' = ''tok3''"
  by code_simp

lemma ex_run_u3:
  "handler ex_env (ex_req ''tok3'') ex_world =
     (Json 200 (Message ''No portfolios found''), ex_world)"
  by (simp add: handler_def serve_try_def ex_req_def ex_token_u3 ex_env_def
        ex_getUser_def select_portfolios_def ex_world_def ex_store_def)

section \<open>The claims about the job\<close>

text \<open>
  C1. A run leaves the quote row of a symbol as it is when the fetch for the symbol fails
  or gives no usable data; a row that a run changes belongs to a symbol whose quote was
  parsed, and holds the new price and change percent and a reading of the clock.
\<close>

theorem failed_symbol_keeps_its_quote_row:
  "(no_usable_quote (env_provider e S) \<longrightarrow>
      market_data (w_store (snd (handler e req w))) S = market_data (w_store w) S) \<and>
   (market_data (w_store (snd (handler e req w))) S \<noteq> market_data (w_store w) S \<longrightarrow>
      (\<exists>q k. parsed_quote (env_provider e) S = Some q \<and>
         market_data (w_store (snd (handler e req w))) S =
           Some \<lparr>q_price = md_price q, q_change_percent = md_change_percent q,
                 q_updated_at = env_clock e k\<rparr>))"
proof (cases "fetch_phase_caller e req w")
  case None
  then show ?thesis by (simp add: handler_no_fetch)
next
  case (Some u)
  let ?syms = "requested_symbols (w_store w) u"
  let ?after = "market_data (w_store (snd (handler e req w))) S"
  have after: "?after =
      market_data (fst (persist_loop e u (select_current_prices (w_store w) ?syms)
        (fetched e ?syms) (w_store w, w_ticks w))) S"
    by (simp add: handler_fetch_store [OF Some] write_audit_def)
  from persist_loop_market_data
    [of S "fetched e ?syms" e u "select_current_prices (w_store w) ?syms" "(w_store w, w_ticks w)"]
  show ?thesis
  proof
    assume "S \<notin> md_symbol ` set (fetched e ?syms) \<and>
      market_data (fst (persist_loop e u (select_current_prices (w_store w) ?syms)
        (fetched e ?syms) (w_store w, w_ticks w))) S = market_data (fst (w_store w, w_ticks w)) S"
    with after show ?thesis by simp
  next
    assume "\<exists>d \<in> set (fetched e ?syms). \<exists>k. md_symbol d = S \<and>
      market_data (fst (persist_loop e u (select_current_prices (w_store w) ?syms)
        (fetched e ?syms) (w_store w, w_ticks w))) S =
        Some \<lparr>q_price = md_price d, q_change_percent = md_change_percent d,
              q_updated_at = env_clock e k\<rparr>"
    then obtain d k where d: "d \<in> set (fetched e ?syms)" "md_symbol d = S"
      "?after = Some \<lparr>q_price = md_price d, q_change_percent = md_change_percent d,
              q_updated_at = env_clock e k\<rparr>"
      using after by auto
    from fetched_member [OF d(1)] d(2) have p: "parsed_quote (env_provider e) S = Some d"
      by simp
    then have "\<not> no_usable_quote (env_provider e S)"
      using parsed_quote_None_iff [of "env_provider e" S] by simp
    with p d(3) show ?thesis by blast
  qed
qed

theorem failed_symbol_keeps_its_quote_row_witness:
  "no_usable_quote (env_provider ex_env ''B'') \<and>
   market_data (w_store (snd (handler ex_env (ex_req ''tok1'') ex_world))) ''B'' =
     market_data (w_store ex_world) ''B'' \<and>
   market_data (w_store (snd (handler ex_env (ex_req ''tok1'') ex_world))) ''A'' \<noteq>
     market_data (w_store ex_world) ''A'' \<and>
   (\<exists>q k. parsed_quote (env_provider ex_env) ''A'' = Some q \<and>
      market_data (w_store (snd (handler ex_env (ex_req ''tok1'') ex_world))) ''A'' =
        Some \<lparr>q_price = md_price q, q_change_percent = md_change_percent q,
              q_updated_at = env_clock ex_env k\<rparr>)"
proof -
  have b: "no_usable_quote (env_provider ex_env ''B'')"
    by (simp add: ex_env_simps ex_provider_def no_usable_quote_def)
  have a: "market_data (w_store (snd (handler ex_env (ex_req ''tok1'') ex_world))) ''A'' \<noteq>
     market_data (w_store ex_world) ''A''"
    by (simp add: ex_store_u1 ex_world_simps ex_store_simps)
  from b a
    failed_symbol_keeps_its_quote_row [of ex_env "''B''" "ex_req ''tok1''" ex_world]
    failed_symbol_keeps_its_quote_row [of ex_env "''A''" "ex_req ''tok1''" ex_world]
  show ?thesis by blast
qed

text \<open>
  C7. The claim: every run that returns a success response, also on the no-op paths,
  writes exactly one audit entry. The run of \<open>u3\<close>, who has no portfolio, returns the
  success response \<open>No portfolios found\<close> and writes no audit entry.
\<close>

theorem no_portfolios_run_writes_no_audit_entry:
  "fst (handler ex_env (ex_req ''tok3'') ex_world) = Json 200 (Message ''No portfolios found'') \<and>
   audit_logs (w_store (snd (handler ex_env (ex_req ''tok3'') ex_world))) = []"
  by (simp add: ex_run_u3 ex_world_simps ex_store_simps)

text \<open>
  C7, amended. A run that reaches the fetch phase returns the success summary and
  appends exactly one audit entry, which records the caller, the requested symbols, the
  number of quotes fetched and the status code 200, whether or not every symbol was
  fetched. Every other run (the two no-op returns among them) returns another response
  and leaves the audit log as it is.
\<close>

theorem audit_entry_written_by_runs_that_fetch:
  "case fetch_phase_caller e req w of
     Some u \<Rightarrow>
       (\<exists>r. fst (handler e req w) = Json 200 (Refreshed r)) \<and>
       audit_logs (w_store (snd (handler e req w))) =
         audit_logs (w_store w) @
           [\<lparr>au_user_id = u, au_action = ''REFRESH_MARKET_DATA'',
             au_resource_type = ''market_data'',
             au_symbols = requested_symbols (w_store w) u,
             au_count = length (fetched e (requested_symbols (w_store w) u)),
             au_status_code = 200\<rparr>]
   | None \<Rightarrow>
       (\<forall>r. fst (handler e req w) \<noteq> Json 200 (Refreshed r)) \<and>
       audit_logs (w_store (snd (handler e req w))) = audit_logs (w_store w)"
proof (cases "fetch_phase_caller e req w")
  case None
  then show ?thesis by (simp add: handler_no_fetch handler_no_fetch_response)
next
  case (Some u)
  then show ?thesis
    by (simp add: handler_fetch_store handler_fetch_response write_audit_def persist_loop_frame)
qed

theorem audit_entry_written_by_runs_that_fetch_witness:
  "fetch_phase_caller ex_env (ex_req ''tok1'') ex_world = Some ''u1'' \<and>
   audit_logs (w_store (snd (handler ex_env (ex_req ''tok1'') ex_world))) =
     [\<lparr>au_user_id = ''u1'', au_action = ''REFRESH_MARKET_DATA'',
       au_resource_type = ''market_data'', au_symbols = [''A'', ''B'', ''C''],
       au_count = 2, au_status_code = 200\<rparr>] \<and>
   fetch_phase_caller ex_env (ex_req ''tok3'') ex_world = None \<and>
   audit_logs (w_store (snd (handler ex_env (ex_req ''tok3'') ex_world))) = []"
  using audit_entry_written_by_runs_that_fetch [of ex_env "ex_req ''tok1''" ex_world]
    audit_entry_written_by_runs_that_fetch [of ex_env "ex_req ''tok3''" ex_world]
  by (simp add: ex_caller_u1 ex_caller_u3 ex_world_simps ex_store_simps ex_symbols_u1
        ex_fetched_u1)

text \<open>
  C8. A run that reaches the fetch phase answers with the number of quotes fetched as
  \<open>updated\<close>, the full list of requested symbols as \<open>symbols\<close>, and the note
  \<open>Some symbols could not be updated due to API availability\<close> exactly when fewer
  quotes were fetched than symbols requested, \<open>All symbols updated successfully\<close>
  otherwise.
\<close>

theorem response_reports_fetched_and_requested:
  assumes "fetch_phase_caller e req w = Some u"
  shows "fst (handler e req w) =
           Json 200 (Refreshed
             \<lparr>r_success = True,
              r_updated = length (filter (\<lambda>s. \<not> no_usable_quote (env_provider e s))
                            (requested_symbols (w_store w) u)),
              r_symbols = requested_symbols (w_store w) u,
              r_source = ''Alpha Vantage (Real-time data)'',
              r_note =
                (if length (filter (\<lambda>s. \<not> no_usable_quote (env_provider e s))
                      (requested_symbols (w_store w) u))
                    < length (requested_symbols (w_store w) u)
                 then ''Some symbols could not be updated due to API availability''
                 else ''All symbols updated successfully'')\<rparr>)"
  by (simp only: handler_fetch_response [OF assms] length_fetched refresh_note_def)

theorem response_reports_fetched_and_requested_witness:
  "fetch_phase_caller ex_env (ex_req ''tok1'') ex_world = Some ''u1'' \<and>
   requested_symbols (w_store ex_world) ''u1'' = [''A'', ''B'', ''C''] \<and>
   no_usable_quote (env_provider ex_env ''B'') \<and>
   fst (handler ex_env (ex_req ''tok1'') ex_world) =
     Json 200 (Refreshed
       \<lparr>r_success = True, r_updated = 2, r_symbols = [''A'', ''B'', ''C''],
        r_source = ''Alpha Vantage (Real-time data)'',
        r_note = ''Some symbols could not be updated due to API availability''\<rparr>)"
proof -
  have "no_usable_quote (env_provider ex_env ''B'')"
    "\<not> no_usable_quote (env_provider ex_env ''A'')"
    "\<not> no_usable_quote (env_provider ex_env ''C'')"
    by (simp_all add: ex_env_simps ex_provider_def no_usable_quote_def)
  with response_reports_fetched_and_requested [OF ex_caller_u1]
  show ?thesis
    by (simp add: ex_caller_u1 ex_world_simps ex_symbols_u1)
qed

text \<open>
  C9. The claim: a run evaluates and notifies every portfolio owner who holds a fetched
  symbol. In the run of \<open>u1\<close> the price of \<open>A\<close> moves by 5 percent; \<open>u2\<close> holds \<open>A\<close> too
  and has a threshold of 1 percent for it, and gets no notification.
\<close>

theorem other_holder_is_not_notified:
  "''A'' \<in> set (requested_symbols (w_store ex_world) ''u2'') \<and>
   filter (\<lambda>t. a_user_id t = ''u2'' \<and> a_symbol t = ''A'') (alert_thresholds (w_store ex_world)) =
     [\<lparr>a_user_id = ''u2'', a_symbol = ''A'', a_threshold_percent = Fin 1\<rparr>] \<and>
   filter (\<lambda>n. n_symbol n = ''A'')
     (notifications (w_store (snd (handler ex_env (ex_req ''tok1'') ex_world)))) =
     [\<lparr>n_user_id = ''u1'', n_symbol = ''A'',
       n_message = PriceChanged ''A'' (Fin 5) (Fin 100) (Fin 105), n_type = ''price_alert''\<rparr>] \<and>
   filter (\<lambda>n. n_user_id n = ''u2'')
     (notifications (w_store (snd (handler ex_env (ex_req ''tok1'') ex_world)))) = []"
  by (simp add: ex_store_u1 ex_world_simps ex_symbols_u2 ex_store_simps)

lemma checkPriceAlerts_evaluated:
  "notifications (checkPriceAlerts st u s old new) =
     notifications st @ evaluated_alert (alert_thresholds st) u s old new"
  by (simp add: checkPriceAlerts_def evaluated_alert_def Let_def split: list.splits)

lemma evaluated_alert_shape:
  "length (evaluated_alert rows u s old new) \<le> 1"
  "list_all (\<lambda>n. n_user_id n = u \<and> n_symbol n = s) (evaluated_alert rows u s old new)"
  by (simp_all add: evaluated_alert_def split: list.splits)

lemma persist_one_evaluated:
  "notifications (fst (persist_one e u cp d sk)) =
     notifications (fst sk) @
       evaluated_alert (alert_thresholds (fst sk)) u (md_symbol d) (old_price cp d) (md_price d)"
  by (simp add: persist_one_def Let_def checkPriceAlerts_evaluated)

lemma persist_loop_evaluated:
  "notifications (fst (persist_loop e u cp ds sk)) =
     notifications (fst sk) @
       concat (map (\<lambda>d. evaluated_alert (alert_thresholds (fst sk)) u (md_symbol d)
                          (old_price cp d) (md_price d)) ds)"
  by (induction ds arbitrary: sk) (simp_all add: persist_one_evaluated persist_one_frame)

text \<open>
  C9, amended. A run calls the evaluator once for every fetched quote, in the order of
  the fetch, and always for the invoking caller: the notifications of a run that
  reaches the fetch phase are those of the store before, followed, quote by quote, by
  what the evaluator creates for the caller, the quote's symbol, the old price and the
  quote's price. One call creates at most one notification, and it carries the user id
  and the symbol of the call; no call is made for another user. A run that does not
  reach the fetch phase creates no notification.
\<close>

theorem run_evaluates_each_fetched_quote_for_the_caller_only:
  "notifications (w_store (snd (handler e req w))) =
     notifications (w_store w) @
       (case fetch_phase_caller e req w of
          None \<Rightarrow> []
        | Some u \<Rightarrow>
            concat (map (\<lambda>d. evaluated_alert (alert_thresholds (w_store w)) u (md_symbol d)
                          (old_price (select_current_prices (w_store w)
                                        (requested_symbols (w_store w) u)) d)
                          (md_price d))
                     (fetched e (requested_symbols (w_store w) u)))) \<and>
   notifications (checkPriceAlerts st who sy old new) =
     notifications st @ evaluated_alert (alert_thresholds st) who sy old new \<and>
   length (evaluated_alert rows who sy old new) \<le> 1 \<and>
   list_all (\<lambda>n. n_user_id n = who \<and> n_symbol n = sy) (evaluated_alert rows who sy old new)"
proof (intro conjI)
  show "notifications (w_store (snd (handler e req w))) =
     notifications (w_store w) @
       (case fetch_phase_caller e req w of
          None \<Rightarrow> []
        | Some u \<Rightarrow>
            concat (map (\<lambda>d. evaluated_alert (alert_thresholds (w_store w)) u (md_symbol d)
                          (old_price (select_current_prices (w_store w)
                                        (requested_symbols (w_store w) u)) d)
                          (md_price d))
                     (fetched e (requested_symbols (w_store w) u))))"
  proof (cases "fetch_phase_caller e req w")
    case None
    then show ?thesis by (simp add: handler_no_fetch)
  next
    case (Some u)
    then show ?thesis
      by (simp add: handler_fetch_store [OF Some] write_audit_def persist_loop_evaluated)
  qed
  show "notifications (checkPriceAlerts st who sy old new) =
     notifications st @ evaluated_alert (alert_thresholds st) who sy old new"
    by (rule checkPriceAlerts_evaluated)
  show "length (evaluated_alert rows who sy old new) \<le> 1"
    by (rule evaluated_alert_shape)
  show "list_all (\<lambda>n. n_user_id n = who \<and> n_symbol n = sy)
          (evaluated_alert rows who sy old new)"
    by (rule evaluated_alert_shape)
qed

theorem run_evaluates_each_fetched_quote_for_the_caller_only_witness:
  "fetch_phase_caller ex_env (ex_req ''tok2'') ex_world = Some ''u2'' \<and>
   fetched ex_env (requested_symbols (w_store ex_world) ''u2'') =
     [\<lparr>md_symbol = ''A'', md_price = Fin 105, md_change_percent = Fin 5\<rparr>,
      \<lparr>md_symbol = ''D'', md_price = Fin (15 / 2), md_change_percent = Fin (1 / 4)\<rparr>] \<and>
   evaluated_alert (alert_thresholds (w_store ex_world)) ''u2'' ''A'' (Fin 100) (Fin 105) =
     [\<lparr>n_user_id = ''u2'', n_symbol = ''A'',
       n_message = PriceChanged ''A'' (Fin 5) (Fin 100) (Fin 105), n_type = ''price_alert''\<rparr>] \<and>
   evaluated_alert (alert_thresholds (w_store ex_world)) ''u2'' ''D'' (Fin (15 / 2)) (Fin (15 / 2)) = [] \<and>
   notifications (w_store ex_world) = [] \<and>
   notifications (w_store (snd (handler ex_env (ex_req ''tok2'') ex_world))) =
     [\<lparr>n_user_id = ''u2'', n_symbol = ''A'',
       n_message = PriceChanged ''A'' (Fin 5) (Fin 100) (Fin 105), n_type = ''price_alert''\<rparr>]"
proof -
  have a: "evaluated_alert (alert_thresholds (w_store ex_world)) ''u2'' ''A'' (Fin 100) (Fin 105) =
     [\<lparr>n_user_id = ''u2'', n_symbol = ''A'',
       n_message = PriceChanged ''A'' (Fin 5) (Fin 100) (Fin 105), n_type = ''price_alert''\<rparr>]"
    by (simp add: evaluated_alert_def ex_world_simps ex_store_simps change_percent_100_105)
  have d: "evaluated_alert (alert_thresholds (w_store ex_world)) ''u2'' ''D''
             (Fin (15 / 2)) (Fin (15 / 2)) = []"
    by (simp add: evaluated_alert_def ex_world_simps ex_store_simps change_percent_15_2)
  have o: "old_price (select_current_prices ex_store [''A'', ''D''])
             \<lparr>md_symbol = ''A'', md_price = Fin 105, md_change_percent = Fin 5\<rparr> = Fin 100"
    "old_price (select_current_prices ex_store [''A'', ''D''])
             \<lparr>md_symbol = ''D'', md_price = Fin (15 / 2), md_change_percent = Fin (1 / 4)\<rparr> =
       Fin (15 / 2)"
    by (simp_all add: old_price_def select_current_prices_def ex_store_simps)
  from run_evaluates_each_fetched_quote_for_the_caller_only
    [of ex_env "ex_req ''tok2''" ex_world]
  have "notifications (w_store (snd (handler ex_env (ex_req ''tok2'') ex_world))) =
     [\<lparr>n_user_id = ''u2'', n_symbol = ''A'',
       n_message = PriceChanged ''A'' (Fin 5) (Fin 100) (Fin 105), n_type = ''price_alert''\<rparr>]"
    using a d o
    by (simp add: ex_caller_u2 ex_world_simps ex_symbols_u2 ex_fetched_u2 ex_store_simps)
  with a d show ?thesis
    by (simp add: ex_caller_u2 ex_world_simps ex_symbols_u2 ex_fetched_u2 ex_store_simps)
qed

section \<open>First observations and zero prices\<close>

lemma change_percent_same: "change_percent p p = Fin 0 \<or> change_percent p p = NaN"
  by (cases p) (simp_all add: change_percent_def round_double_def)

lemma no_alert_when_unchanged:
  assumes "js_gt t (Fin 0)"
  shows "\<not> js_ge (js_abs (change_percent p p)) t"
  using assms change_percent_same [of p] by (cases t) auto

lemma checkPriceAlerts_same_price:
  assumes "\<forall>t \<in> set (alert_thresholds st). a_symbol t = s \<longrightarrow> js_gt (a_threshold_percent t) (Fin 0)"
  shows "notifications (checkPriceAlerts st u s p p) = notifications st"
proof (cases "filter (\<lambda>t. a_user_id t = u \<and> a_symbol t = s) (alert_thresholds st)")
  case Nil
  then show ?thesis by (simp add: checkPriceAlerts_def)
next
  case (Cons t ts)
  then have "t \<in> set (filter (\<lambda>t. a_user_id t = u \<and> a_symbol t = s) (alert_thresholds st))"
    by simp
  then have "js_gt (a_threshold_percent t) (Fin 0)" using assms by simp
  then show ?thesis using Cons by (simp add: checkPriceAlerts_def no_alert_when_unchanged)
qed

lemma persist_one_first_observation:
  assumes "cp S = None"
    and "\<forall>t \<in> set (alert_thresholds (fst sk)). a_symbol t = S \<longrightarrow> js_gt (a_threshold_percent t) (Fin 0)"
  shows "filter (\<lambda>n. n_symbol n = S) (notifications (fst (persist_one e u cp d sk))) =
         filter (\<lambda>n. n_symbol n = S) (notifications (fst sk))"
proof (cases "md_symbol d = S")
  case True
  then have "old_price cp d = md_price d" using assms(1) by (simp add: old_price_def)
  then show ?thesis using True assms(2)
    by (simp add: persist_one_def Let_def checkPriceAlerts_same_price)
next
  case False
  from persist_one_notifications [of e u cp d sk] obtain ns where
    "notifications (fst (persist_one e u cp d sk)) = notifications (fst sk) @ ns"
    "\<forall>n \<in> set ns. n_user_id n = u \<and> n_symbol n = md_symbol d" by blast
  with False show ?thesis by (simp add: filter_empty_conv)
qed

lemma persist_loop_first_observation:
  assumes "cp S = None"
    and "\<forall>t \<in> set (alert_thresholds (fst sk)). a_symbol t = S \<longrightarrow> js_gt (a_threshold_percent t) (Fin 0)"
  shows "filter (\<lambda>n. n_symbol n = S) (notifications (fst (persist_loop e u cp ds sk))) =
         filter (\<lambda>n. n_symbol n = S) (notifications (fst sk))"
  using assms(2)
proof (induction ds arbitrary: sk)
  case Nil
  show ?case by simp
next
  case (Cons d ds)
  have "\<forall>t \<in> set (alert_thresholds (fst (persist_one e u cp d sk))).
          a_symbol t = S \<longrightarrow> js_gt (a_threshold_percent t) (Fin 0)"
    using Cons.prems by (simp add: persist_one_frame)
  from Cons.IH [OF this]
    persist_one_first_observation [where cp = cp and S = S and sk = sk, OF assms(1) Cons.prems]
  show ?case by simp
qed

text \<open>
  C4. The claim: the first fetch of a symbol without a quote row creates no notification,
  whatever the threshold. Symbol \<open>C\<close> has no quote row; the change computed for its
  first quote is 0, and the threshold of 0 percent that \<open>u1\<close> has for \<open>C\<close> is reached,
  since the comparison is \<open>>=\<close>: a notification is created.
\<close>

theorem first_observation_alerts_at_zero_threshold:
  "market_data (w_store ex_world) ''C'' = None \<and>
   filter (\<lambda>n. n_symbol n = ''C'') (notifications (w_store ex_world)) = [] \<and>
   filter (\<lambda>n. n_symbol n = ''C'')
     (notifications (w_store (snd (handler ex_env (ex_req ''tok1'') ex_world)))) =
     [\<lparr>n_user_id = ''u1'', n_symbol = ''C'',
       n_message = PriceChanged ''C'' (Fin 0) (Fin 20) (Fin 20), n_type = ''price_alert''\<rparr>]"
  by (simp add: ex_store_u1 ex_world_simps ex_store_simps)

text \<open>
  C4, amended. For a symbol \<open>S\<close> without a quote row whose thresholds are all greater
  than 0, a run creates no notification for \<open>S\<close>: the old price is taken equal to the
  new price, so the change is 0 (or NaN, when the price is 0 or not a finite number).
\<close>

theorem first_observation_creates_no_alert:
  assumes "market_data (w_store w) S = None"
    and "\<forall>t \<in> set (alert_thresholds (w_store w)).
           a_symbol t = S \<longrightarrow> js_gt (a_threshold_percent t) (Fin 0)"
  shows "filter (\<lambda>n. n_symbol n = S) (notifications (w_store (snd (handler e req w)))) =
         filter (\<lambda>n. n_symbol n = S) (notifications (w_store w))"
proof (cases "fetch_phase_caller e req w")
  case None
  then show ?thesis by (simp add: handler_no_fetch)
next
  case (Some u)
  have "select_current_prices (w_store w) (requested_symbols (w_store w) u) S = None"
    using assms(1) by (simp add: select_current_prices_def)
  from persist_loop_first_observation
    [where cp = "select_current_prices (w_store w) (requested_symbols (w_store w) u)"
       and S = S and sk = "(w_store w, w_ticks w)", OF this] assms(2)
  show ?thesis by (simp add: handler_fetch_store [OF Some] write_audit_def)
qed

theorem first_observation_creates_no_alert_witness:
  "market_data (w_store ex_world) ''D'' = None \<and>
   filter (\<lambda>t. a_symbol t = ''D'') (alert_thresholds (w_store ex_world)) =
     [\<lparr>a_user_id = ''u2'', a_symbol = ''D'', a_threshold_percent = Fin 5\<rparr>] \<and>
   js_gt (Fin 5) (Fin 0) \<and>
   market_data (w_store (snd (handler ex_env (ex_req ''tok2'') ex_world))) ''D'' =
     Some \<lparr>q_price = Fin (15 / 2), q_change_percent = Fin (1 / 4), q_updated_at = ex_clock 2\<rparr> \<and>
   filter (\<lambda>n. n_symbol n = ''D'')
     (notifications (w_store (snd (handler ex_env (ex_req ''tok2'') ex_world)))) = []"
proof -
  have 1: "market_data (w_store ex_world) ''D'' = None"
    by (simp add: ex_world_simps ex_store_simps)
  have 2: "\<forall>t \<in> set (alert_thresholds (w_store ex_world)).
           a_symbol t = ''D'' \<longrightarrow> js_gt (a_threshold_percent t) (Fin 0)"
    by (simp add: ex_world_simps ex_store_simps)
  from first_observation_creates_no_alert [OF 1 2, of ex_env "ex_req ''tok2''"]
  show ?thesis by (simp add: ex_world_simps ex_store_simps ex_store_u2)
qed

lemma change_percent_0_105: "change_percent (Fin 0) (Fin 105) = PInf"
  by code_simp

lemma representable_105: "representable (Fin 105)"
  by code_simp

lemma change_percent_zero_old:
  assumes "representable n"
  shows "change_percent (Fin 0) n =
           (if truthy n then (if is_neg n then NInf else PInf) else NaN)"
  using assms by (cases n) (auto simp: change_percent_def representable_def is_neg_def)

text \<open>
  C6. The claim: with an old price of 0 the evaluator creates no notification. It has
  no such guard: with the old price 0 and the new price 105 the change is \<open>Infinity\<close>,
  which reaches the threshold of 5 percent, and the notification is created.
\<close>

theorem zero_old_price_creates_notification:
  "notifications (checkPriceAlerts (threshold_store (Fin 5)) ''u1'' ''A'' (Fin 0) (Fin 105)) =
     [\<lparr>n_user_id = ''u1'', n_symbol = ''A'',
       n_message = PriceChanged ''A'' PInf (Fin 0) (Fin 105), n_type = ''price_alert''\<rparr>]"
  by (simp add: checkPriceAlerts_def threshold_store_def change_percent_0_105)

text \<open>
  C6, amended. The evaluator has no guard against an old price of 0. Let the user have a
  threshold row for the symbol, \<open>t\<close> being the first. With the old price 0, a new price
  that is 0 or NaN gives the change NaN and no notification; any other new price gives an
  infinite change, and the notification is created (unless the threshold is NaN).
\<close>

theorem zero_old_price_is_not_guarded:
  assumes "filter (\<lambda>t. a_user_id t = u \<and> a_symbol t = s) (alert_thresholds st) = t # ts"
    and "representable newPrice"
  shows "notifications (checkPriceAlerts st u s (Fin 0) newPrice) =
           (if truthy newPrice \<and> a_threshold_percent t \<noteq> NaN then
              notifications st @
                [\<lparr>n_user_id = u, n_symbol = s,
                  n_message = PriceChanged s (if is_neg newPrice then NInf else PInf)
                                (Fin 0) newPrice,
                  n_type = ''price_alert''\<rparr>]
            else notifications st)"
  using assms(1)
  by (cases "a_threshold_percent t")
     (simp_all add: checkPriceAlerts_def change_percent_zero_old [OF assms(2)])

theorem zero_old_price_is_not_guarded_witness:
  "filter (\<lambda>t. a_user_id t = ''u1'' \<and> a_symbol t = ''A'') (alert_thresholds (threshold_store (Fin 5))) =
     [\<lparr>a_user_id = ''u1'', a_symbol = ''A'', a_threshold_percent = Fin 5\<rparr>] \<and>
   representable (Fin 105) \<and> representable (Fin 0) \<and>
   notifications (checkPriceAlerts (threshold_store (Fin 5)) ''u1'' ''A'' (Fin 0) (Fin 105)) =
     [\<lparr>n_user_id = ''u1'', n_symbol = ''A'',
       n_message = PriceChanged ''A'' PInf (Fin 0) (Fin 105), n_type = ''price_alert''\<rparr>] \<and>
   notifications (checkPriceAlerts (threshold_store (Fin 5)) ''u1'' ''A'' (Fin 0) (Fin 0)) = []"
proof -
  have 1: "filter (\<lambda>t. a_user_id t = ''u1'' \<and> a_symbol t = ''A'')
      (alert_thresholds (threshold_store (Fin 5))) =
     [\<lparr>a_user_id = ''u1'', a_symbol = ''A'', a_threshold_percent = Fin 5\<rparr>]"
    by (simp add: threshold_store_def)
  have 2: "representable (Fin 0)" by (simp add: representable_def round_double_def)
  have 3: "notifications (threshold_store (Fin 5)) = []" by (simp add: threshold_store_def)
  from zero_old_price_is_not_guarded [OF 1 representable_105]
    zero_old_price_is_not_guarded [OF 1 2]
  show ?thesis by (simp add: 1 2 3 representable_105 is_neg_def)
qed









end
